theory Spec2Isabelle
  imports Complex_Main "HOL-Library.Multiset"
begin

section \<open>Data model\<close>

text \<open>
  The C++ sources compute on \<^verbatim>\<open>double\<close>. Here a \<^verbatim>\<open>double\<close> is idealised as a
  \<^typ>\<open>real\<close>: rounding, infinities and NaN are outside the model. What the model keeps
  is every branch, guard, assertion and assignment of the code, and the exact algebra of
  the expressions it evaluates.

  Eigen's fixed-size types \<^verbatim>\<open>Vec3\<close>, \<^verbatim>\<open>Mat3\<close>, \<^verbatim>\<open>Mat4\<close> and \<^verbatim>\<open>Vec9\<close> are records of their
  coefficients (\<open>a01\<close> is row 0, column 1); the dynamic \<^verbatim>\<open>Mat\<close> is its two dimensions
  and its coefficient function.
\<close>

record Vec3 =
  vx :: real
  vy :: real
  vz :: real

record Mat3 =
  a00 :: real
  a01 :: real
  a02 :: real
  a10 :: real
  a11 :: real
  a12 :: real
  a20 :: real
  a21 :: real
  a22 :: real

record Mat4 =
  m00 :: real
  m01 :: real
  m02 :: real
  m03 :: real
  m10 :: real
  m11 :: real
  m12 :: real
  m13 :: real
  m20 :: real
  m21 :: real
  m22 :: real
  m23 :: real
  m30 :: real
  m31 :: real
  m32 :: real
  m33 :: real

record Vec9 =
  c0 :: real
  c1 :: real
  c2 :: real
  c3 :: real
  c4 :: real
  c5 :: real
  c6 :: real
  c7 :: real
  c8 :: real

record Mat =
  rows :: nat
  cols :: nat
  coeff :: "nat \<Rightarrow> nat \<Rightarrow> real"

text \<open>
  A failed \<^verbatim>\<open>assert\<close> (the code's own, or Eigen's index check) stops the program; so
  does, in the model, a read past the end of a C array.
\<close>

datatype error = AssertionFailed | OutOfBounds

subsection \<open>The Eigen operations the code uses\<close>

definition Vec3_Zero :: Vec3 where
  "Vec3_Zero = \<lparr>vx = 0, vy = 0, vz = 0\<rparr>"

definition Mat3_Zero :: Mat3 where
  "Mat3_Zero = \<lparr>a00 = 0, a01 = 0, a02 = 0, a10 = 0, a11 = 0, a12 = 0, a20 = 0, a21 = 0, a22 = 0\<rparr>"

definition Mat3_Identity :: Mat3 where
  "Mat3_Identity = \<lparr>a00 = 1, a01 = 0, a02 = 0, a10 = 0, a11 = 1, a12 = 0, a20 = 0, a21 = 0, a22 = 1\<rparr>"

definition Mat4_Zero :: Mat4 where
  "Mat4_Zero = \<lparr>m00 = 0, m01 = 0, m02 = 0, m03 = 0, m10 = 0, m11 = 0, m12 = 0, m13 = 0,
                 m20 = 0, m21 = 0, m22 = 0, m23 = 0, m30 = 0, m31 = 0, m32 = 0, m33 = 0\<rparr>"

definition Mat4_Identity :: Mat4 where
  "Mat4_Identity = \<lparr>m00 = 1, m01 = 0, m02 = 0, m03 = 0, m10 = 0, m11 = 1, m12 = 0, m13 = 0,
                     m20 = 0, m21 = 0, m22 = 1, m23 = 0, m30 = 0, m31 = 0, m32 = 0, m33 = 1\<rparr>"

definition Mat_Zero :: "nat \<Rightarrow> nat \<Rightarrow> Mat" where
  "Mat_Zero r c = \<lparr>rows = r, cols = c, coeff = (\<lambda>i j. 0)\<rparr>"

text \<open>\<^verbatim>\<open>s * A\<close> and \<^verbatim>\<open>A /= s\<close> on a 3x3 matrix.\<close>

definition smult3 :: "real \<Rightarrow> Mat3 \<Rightarrow> Mat3" where
  "smult3 s A = \<lparr>a00 = s * a00 A, a01 = s * a01 A, a02 = s * a02 A,
                 a10 = s * a10 A, a11 = s * a11 A, a12 = s * a12 A,
                 a20 = s * a20 A, a21 = s * a21 A, a22 = s * a22 A\<rparr>"

definition sdiv3 :: "Mat3 \<Rightarrow> real \<Rightarrow> Mat3" where
  "sdiv3 A s = \<lparr>a00 = a00 A / s, a01 = a01 A / s, a02 = a02 A / s,
                a10 = a10 A / s, a11 = a11 A / s, a12 = a12 A / s,
                a20 = a20 A / s, a21 = a21 A / s, a22 = a22 A / s\<rparr>"

definition add3 :: "Mat3 \<Rightarrow> Mat3 \<Rightarrow> Mat3" where
  "add3 A B = \<lparr>a00 = a00 A + a00 B, a01 = a01 A + a01 B, a02 = a02 A + a02 B,
               a10 = a10 A + a10 B, a11 = a11 A + a11 B, a12 = a12 A + a12 B,
               a20 = a20 A + a20 B, a21 = a21 A + a21 B, a22 = a22 A + a22 B\<rparr>"

definition mult3 :: "Mat3 \<Rightarrow> Mat3 \<Rightarrow> Mat3" where
  "mult3 A B =
     \<lparr>a00 = a00 A * a00 B + a01 A * a10 B + a02 A * a20 B,
      a01 = a00 A * a01 B + a01 A * a11 B + a02 A * a21 B,
      a02 = a00 A * a02 B + a01 A * a12 B + a02 A * a22 B,
      a10 = a10 A * a00 B + a11 A * a10 B + a12 A * a20 B,
      a11 = a10 A * a01 B + a11 A * a11 B + a12 A * a21 B,
      a12 = a10 A * a02 B + a11 A * a12 B + a12 A * a22 B,
      a20 = a20 A * a00 B + a21 A * a10 B + a22 A * a20 B,
      a21 = a20 A * a01 B + a21 A * a11 B + a22 A * a21 B,
      a22 = a20 A * a02 B + a21 A * a12 B + a22 A * a22 B\<rparr>"

definition transpose3 :: "Mat3 \<Rightarrow> Mat3" where
  "transpose3 A = \<lparr>a00 = a00 A, a01 = a10 A, a02 = a20 A,
                   a10 = a01 A, a11 = a11 A, a12 = a21 A,
                   a20 = a02 A, a21 = a12 A, a22 = a22 A\<rparr>"

definition asDiagonal :: "Vec3 \<Rightarrow> Mat3" where
  "asDiagonal d = \<lparr>a00 = vx d, a01 = 0, a02 = 0,
                   a10 = 0, a11 = vy d, a12 = 0,
                   a20 = 0, a21 = 0, a22 = vz d\<rparr>"

text \<open>\<^verbatim>\<open>A.determinant()\<close> of a 3x3 matrix: the cofactor expansion along the first row.\<close>

definition determinant3 :: "Mat3 \<Rightarrow> real" where
  "determinant3 A =
     a00 A * (a11 A * a22 A - a12 A * a21 A)
     - a01 A * (a10 A * a22 A - a12 A * a20 A)
     + a02 A * (a10 A * a21 A - a11 A * a20 A)"

text \<open>\<^verbatim>\<open>A * v\<close>, \<^verbatim>\<open>u + v\<close>, \<^verbatim>\<open>u - v\<close>, \<^verbatim>\<open>v.squaredNorm()\<close> and \<^verbatim>\<open>v.norm()\<close> on 3-vectors.\<close>

definition mulvec3 :: "Mat3 \<Rightarrow> Vec3 \<Rightarrow> Vec3" where
  "mulvec3 A v = \<lparr>vx = a00 A * vx v + a01 A * vy v + a02 A * vz v,
                  vy = a10 A * vx v + a11 A * vy v + a12 A * vz v,
                  vz = a20 A * vx v + a21 A * vy v + a22 A * vz v\<rparr>"

definition addvec3 :: "Vec3 \<Rightarrow> Vec3 \<Rightarrow> Vec3" where
  "addvec3 u v = \<lparr>vx = vx u + vx v, vy = vy u + vy v, vz = vz u + vz v\<rparr>"

definition subvec3 :: "Vec3 \<Rightarrow> Vec3 \<Rightarrow> Vec3" where
  "subvec3 u v = \<lparr>vx = vx u - vx v, vy = vy u - vy v, vz = vz u - vz v\<rparr>"

definition squaredNorm :: "Vec3 \<Rightarrow> real" where
  "squaredNorm v = vx v * vx v + vy v * vy v + vz v * vz v"

definition norm3 :: "Vec3 \<Rightarrow> real" where
  "norm3 v = sqrt (squaredNorm v)"

text \<open>
  The blocks of a 4x4 matrix: \<^verbatim>\<open>M.topLeftCorner<3, 3>()\<close> and \<^verbatim>\<open>M.topRightCorner<3, 1>()\<close>
  read them, and an assignment to \<^verbatim>\<open>M.topLeftCorner(3, 3)\<close> or \<^verbatim>\<open>M.topRightCorner(3, 1)\<close>
  writes these coefficients of \<open>M\<close> and no other.
\<close>

definition topLeftCorner33 :: "Mat4 \<Rightarrow> Mat3" where
  "topLeftCorner33 M = \<lparr>a00 = m00 M, a01 = m01 M, a02 = m02 M,
                        a10 = m10 M, a11 = m11 M, a12 = m12 M,
                        a20 = m20 M, a21 = m21 M, a22 = m22 M\<rparr>"

definition topRightCorner31 :: "Mat4 \<Rightarrow> Vec3" where
  "topRightCorner31 M = \<lparr>vx = m03 M, vy = m13 M, vz = m23 M\<rparr>"

definition set_topLeftCorner33 :: "Mat4 \<Rightarrow> Mat3 \<Rightarrow> Mat4" where
  "set_topLeftCorner33 M B =
     M\<lparr>m00 := a00 B, m01 := a01 B, m02 := a02 B,
       m10 := a10 B, m11 := a11 B, m12 := a12 B,
       m20 := a20 B, m21 := a21 B, m22 := a22 B\<rparr>"

definition set_topRightCorner31 :: "Mat4 \<Rightarrow> Vec3 \<Rightarrow> Mat4" where
  "set_topRightCorner31 M v = M\<lparr>m03 := vx v, m13 := vy v, m23 := vz v\<rparr>"

definition Square :: "real \<Rightarrow> real" where
  "Square x = x * x"

text \<open>\<^verbatim>\<open>std::numeric_limits<double>::epsilon()\<close>, the gap between 1 and the next double.\<close>

definition epsilon :: real where
  "epsilon = 1 / 2 ^ 52"

section \<open>rigidTransformation3D.hpp\<close>

subsection \<open>composeRTS and decomposeRTS\<close>

text \<open>
  \<^verbatim>\<open>composeRTS(S, t, R, RTS)\<close> makes two block assignments to the caller's matrix. The
  model takes the caller's matrix as it was and returns it as the function leaves it.
\<close>

definition composeRTS :: "real \<Rightarrow> Vec3 \<Rightarrow> Mat3 \<Rightarrow> Mat4 \<Rightarrow> Mat4" where
  "composeRTS S t R RTS = set_topRightCorner31 (set_topLeftCorner33 RTS (smult3 S R)) t"

text \<open>
  \<^verbatim>\<open>decomposeRTS(RTS, S, t, R)\<close> writes through three references and returns a flag. The
  model takes the three referenced values as they were and returns the flag with the three
  values as the function leaves them, on each of its three exits.
  \<^verbatim>\<open>pow(d, 1.0 / 3.0)\<close> is \<open>d powr (1 / 3)\<close>; the code reaches it only past the guard
  \<^verbatim>\<open>d < 0\<close>. The determinant and the cube root are the exact ones here, where the code
  has Eigen's and the C library's rounded ones: which of the three exits an input near a
  guard takes, and the values a successful call returns, can differ from the code's. What
  each exit leaves in the outputs does not depend on that.
\<close>

definition decomposeRTS :: "Mat4 \<Rightarrow> real \<Rightarrow> Vec3 \<Rightarrow> Mat3 \<Rightarrow> bool \<times> real \<times> Vec3 \<times> Mat3" where
  "decomposeRTS RTS S t R =
     (let R1 = topLeftCorner33 RTS in
      if determinant3 R1 < 0 then (False, S, t, R1)
      else
        let S1 = determinant3 R1 powr (1 / 3) in
        if S1 < epsilon then (False, S1, t, R1)
        else (True, S1, topRightCorner31 RTS, sdiv3 R1 S1))"

subsection \<open>FindRTS\<close>

text \<open>
  \<^verbatim>\<open>Eigen::umeyama\<close> belongs to the Eigen library, not to this repository: it is a
  parameter of the model. The cardinality guard comes first in the code, before the four
  assertions, and returns without touching the outputs.
\<close>

definition FindRTS ::
  "(Mat \<Rightarrow> Mat \<Rightarrow> Mat4) \<Rightarrow> Mat \<Rightarrow> Mat \<Rightarrow> real \<Rightarrow> Vec3 \<Rightarrow> Mat3 \<Rightarrow> error + (bool \<times> real \<times> Vec3 \<times> Mat3)"
where
  "FindRTS umeyama x1 x2 S t R =
     (if cols x1 < 3 \<or> cols x2 < 3 then Inr (False, S, t, R)
      else if 3 \<noteq> rows x1 then Inl AssertionFailed
      else if \<not> 3 \<le> cols x1 then Inl AssertionFailed
      else if rows x1 \<noteq> rows x2 then Inl AssertionFailed
      else if cols x1 \<noteq> cols x2 then Inl AssertionFailed
      else Inr (decomposeRTS (umeyama x1 x2) S t R))"

subsection \<open>The error metrics\<close>

text \<open>\<^verbatim>\<open>RTSSolver::Error\<close> returns the norm of the residual.\<close>

definition RTSSolver_Error :: "Mat4 \<Rightarrow> Vec3 \<Rightarrow> Vec3 \<Rightarrow> real" where
  "RTSSolver_Error RTS pt1 pt2 =
     (let RS = topLeftCorner33 RTS; t = topRightCorner31 RTS
      in norm3 (subvec3 pt2 (addvec3 (mulvec3 RS pt1) t)))"

text \<open>\<^verbatim>\<open>RTSSquaredResidualError::Error\<close> returns its squared norm.\<close>

definition RTSSquaredResidualError_Error :: "Mat4 \<Rightarrow> Vec3 \<Rightarrow> Vec3 \<Rightarrow> real" where
  "RTSSquaredResidualError_Error RTS pt1 pt2 =
     (let RS = topLeftCorner33 RTS; t = topRightCorner31 RTS
      in squaredNorm (subvec3 pt2 (addvec3 (mulvec3 RS pt1) t)))"

subsection \<open>ACKernelAdaptor_PointsRegistrationSRT\<close>

text \<open>
  The adaptor holds the two point matrices \<^verbatim>\<open>x1_\<close>, \<^verbatim>\<open>x2_\<close> and \<^verbatim>\<open>logalpha0_\<close> (a name
  cannot end in an underscore here: the fields are \<open>m_x1\<close>, \<open>m_x2\<close> and
  \<open>m_logalpha0\<close>). Its template parameter
  \<^verbatim>\<open>ErrorArg\<close> is a parameter \<open>ErrorT\<close> of the operations that call it. The constructor
  asserts the shapes.
\<close>

record Kernel =
  m_x1 :: Mat
  m_x2 :: Mat
  m_logalpha0 :: real

definition ACKernelAdaptor_PointsRegistrationSRT :: "Mat \<Rightarrow> Mat \<Rightarrow> error + Kernel" where
  "ACKernelAdaptor_PointsRegistrationSRT xA xB =
     (if 3 \<noteq> rows xA then Inl AssertionFailed
      else if rows xA \<noteq> rows xB then Inl AssertionFailed
      else if cols xA \<noteq> cols xB then Inl AssertionFailed
      else Inr \<lparr>m_x1 = xA, m_x2 = xB, m_logalpha0 = log 10 pi\<rparr>)"

text \<open>
  \<^verbatim>\<open>m.col(j)\<close> passed as a \<^verbatim>\<open>const Vec3 &\<close>: Eigen asserts that the index is a column of
  \<open>m\<close> and that the column has three rows.
\<close>

definition col :: "Mat \<Rightarrow> nat \<Rightarrow> error + Vec3" where
  "col m j =
     (if j < cols m \<and> rows m = 3
      then Inr \<lparr>vx = coeff m 0 j, vy = coeff m 1 j, vz = coeff m 2 j\<rparr>
      else Inl AssertionFailed)"

definition ACKernelAdaptor_Error ::
  "(Mat4 \<Rightarrow> Vec3 \<Rightarrow> Vec3 \<Rightarrow> real) \<Rightarrow> Kernel \<Rightarrow> nat \<Rightarrow> Mat4 \<Rightarrow> error + real"
where
  "ACKernelAdaptor_Error ErrorT k sample model =
     (case col (m_x1 k) sample of
        Inl e \<Rightarrow> Inl e
      | Inr p1 \<Rightarrow>
          (case col (m_x2 k) sample of
             Inl e \<Rightarrow> Inl e
           | Inr p2 \<Rightarrow> Inr (Square (ErrorT model p1 p2))))"

definition NumSamples :: "Kernel \<Rightarrow> nat" where
  "NumSamples k = cols (m_x1 k)"

text \<open>\<^verbatim>\<open>std::vector<double>::resize(n)\<close>: keeps the first \<open>n\<close> entries and pads with zeros.\<close>

definition resize :: "nat \<Rightarrow> real list \<Rightarrow> real list" where
  "resize n xs = take n xs @ replicate (n - length xs) 0"

text \<open>The loop of \<^verbatim>\<open>Errors\<close>, from \<open>sample\<close> on, over the vector resized before it.\<close>

function Errors_loop ::
  "(Mat4 \<Rightarrow> Vec3 \<Rightarrow> Vec3 \<Rightarrow> real) \<Rightarrow> Kernel \<Rightarrow> Mat4 \<Rightarrow> nat \<Rightarrow> real list \<Rightarrow> error + real list"
where
  "Errors_loop ErrorT k model sample vec_errors =
     (if sample < cols (m_x1 k) then
        (case col (m_x1 k) sample of
           Inl e \<Rightarrow> Inl e
         | Inr p1 \<Rightarrow>
             (case col (m_x2 k) sample of
                Inl e \<Rightarrow> Inl e
              | Inr p2 \<Rightarrow>
                  Errors_loop ErrorT k model (Suc sample)
                    (vec_errors[sample := Square (ErrorT model p1 p2)])))
      else Inr vec_errors)"
  by pat_completeness auto
termination
  by (relation "measure (\<lambda>(ErrorT, k, model, sample, vec_errors). cols (m_x1 k) - sample)") auto

declare Errors_loop.simps [simp del]

definition ACKernelAdaptor_Errors ::
  "(Mat4 \<Rightarrow> Vec3 \<Rightarrow> Vec3 \<Rightarrow> real) \<Rightarrow> Kernel \<Rightarrow> Mat4 \<Rightarrow> real list \<Rightarrow> error + real list"
where
  "ACKernelAdaptor_Errors ErrorT k model vec_errors =
     Errors_loop ErrorT k model 0 (resize (cols (m_x1 k)) vec_errors)"

text \<open>
  The squared residual of a model on one correspondence, as the specification writes it:
  the squared length of \<open>x2 - (S\<cdot>R\<cdot>x1 + t)\<close>, with \<open>S\<cdot>R\<close> the top-left block of the model
  and \<open>t\<close> its top-right column, coordinate by coordinate.
\<close>

definition squared_residual :: "Mat4 \<Rightarrow> Vec3 \<Rightarrow> Vec3 \<Rightarrow> real" where
  "squared_residual M p1 p2 =
     (vx p2 - (m00 M * vx p1 + m01 M * vy p1 + m02 M * vz p1 + m03 M))\<^sup>2
     + (vy p2 - (m10 M * vx p1 + m11 M * vy p1 + m12 M * vz p1 + m13 M))\<^sup>2
     + (vz p2 - (m20 M * vx p1 + m21 M * vy p1 + m22 M * vz p1 + m23 M))\<^sup>2"

section \<open>fundamentalKernelSolver.cpp\<close>

text \<open>
  \<^verbatim>\<open>EncodeEpipolarEquation\<close>, \<^verbatim>\<open>Nullspace\<close>, \<^verbatim>\<open>Nullspace2\<close> and \<^verbatim>\<open>SolveCubicPolynomial\<close> are
  declared in headers that are not among the sources, and \<^verbatim>\<open>Eigen::JacobiSVD\<close> is
  Eigen's: each is a parameter of the solver that calls it. \<^verbatim>\<open>Mat A(n, 9)\<close> allocates
  without initialising; \<open>uninit\<close> stands for the coefficients it happens to hold.
  \<^verbatim>\<open>Map<RMat3>(f.data())\<close> reads the nine coefficients row by row.
\<close>

definition Map_RMat3 :: "Vec9 \<Rightarrow> Mat3" where
  "Map_RMat3 f = \<lparr>a00 = c0 f, a01 = c1 f, a02 = c2 f,
                  a10 = c3 f, a11 = c4 f, a12 = c5 f,
                  a20 = c6 f, a21 = c7 f, a22 = c8 f\<rparr>"

subsection \<open>SevenPointSolver::Solve\<close>

text \<open>
  The array \<^verbatim>\<open>P[4]\<close>, in ascending powers, with the code's letters for the entries
  (\<open>o'\<close> for the code's \<^verbatim>\<open>o\<close>, which is an operator here).
\<close>

definition cubic_coefficients :: "Mat3 \<Rightarrow> Mat3 \<Rightarrow> real list" where
  "cubic_coefficients F1 F2 =
     (let a = a00 F1; j = a00 F2;
          b = a01 F1; k = a01 F2;
          c = a02 F1; l = a02 F2;
          d = a10 F1; m = a10 F2;
          e = a11 F1; n = a11 F2;
          f = a12 F1; o' = a12 F2;
          g = a20 F1; p = a20 F2;
          h = a21 F1; q = a21 F2;
          i = a22 F1; r = a22 F2
      in [a*e*i + b*f*g + c*d*h - a*f*h - b*d*i - c*e*g,
          a*e*r + a*i*n + b*f*p + b*g*o' + c*d*q + c*h*m + d*h*l + e*i*j + f*g*k -
          a*f*q - a*h*o' - b*d*r - b*i*m - c*e*p - c*g*n - d*i*k - e*g*l - f*h*j,
          a*n*r + b*o'*p + c*m*q + d*l*q + e*j*r + f*k*p + g*k*o' + h*l*m + i*j*n -
          a*o'*q - b*m*r - c*n*p - d*k*r - e*l*p - f*j*q - g*l*n - h*j*o' - i*k*m,
          j*n*r + k*o'*p + l*m*q - j*o'*q - k*m*r - l*n*p])"

text \<open>
  \<^verbatim>\<open>double roots[3]\<close> after the root-finder has written to it, read at \<open>kk\<close>. The array
  has three cells; a read past them has no defined result, and the model stops there.
\<close>

definition roots_at :: "real \<times> real \<times> real \<Rightarrow> int \<Rightarrow> error + real" where
  "roots_at roots kk =
     (case roots of (r0, r1, r2) \<Rightarrow>
        if kk = 0 then Inr r0
        else if kk = 1 then Inr r1
        else if kk = 2 then Inr r2
        else Inl OutOfBounds)"

text \<open>The loop \<^verbatim>\<open>for (int kk = 0; kk < num_roots; ++kk)\<close>, from \<open>kk\<close> on.\<close>

function push_back_roots ::
  "Mat3 \<Rightarrow> Mat3 \<Rightarrow> int \<Rightarrow> real \<times> real \<times> real \<Rightarrow> int \<Rightarrow> Mat3 list \<Rightarrow> error + Mat3 list"
where
  "push_back_roots F1 F2 num_roots roots kk F =
     (if kk < num_roots then
        (case roots_at roots kk of
           Inl e \<Rightarrow> Inl e
         | Inr alpha \<Rightarrow>
             push_back_roots F1 F2 num_roots roots (kk + 1) (F @ [add3 F1 (smult3 alpha F2)]))
      else Inr F)"
  by pat_completeness auto
termination
  by (relation "measure (\<lambda>(F1, F2, num_roots, roots, kk, F). nat (num_roots - kk))") auto

declare push_back_roots.simps [simp del]

definition SevenPointSolver_Solve ::
  "(Mat \<Rightarrow> Mat \<Rightarrow> Mat \<Rightarrow> real list option \<Rightarrow> Mat) \<Rightarrow> (Mat \<Rightarrow> Vec9 \<times> Vec9) \<Rightarrow>
   (real list \<Rightarrow> int \<times> real \<times> real \<times> real) \<Rightarrow> (nat \<Rightarrow> nat \<Rightarrow> real) \<Rightarrow>
   Mat \<Rightarrow> Mat \<Rightarrow> Mat3 list \<Rightarrow> error + Mat3 list"
where
  "SevenPointSolver_Solve EncodeEpipolarEquation Nullspace2 SolveCubicPolynomial uninit x1 x2 F =
     (if 2 \<noteq> rows x1 then Inl AssertionFailed
      else if \<not> 7 \<le> cols x1 then Inl AssertionFailed
      else if rows x1 \<noteq> rows x2 then Inl AssertionFailed
      else if cols x1 \<noteq> cols x2 then Inl AssertionFailed
      else
        let (f1, f2) =
              (if cols x1 = 7
               then Nullspace2 (EncodeEpipolarEquation x1 x2 (Mat_Zero 9 9) None)
               else Nullspace2 (EncodeEpipolarEquation x1 x2
                      \<lparr>rows = cols x1, cols = 9, coeff = uninit\<rparr> None));
            F1 = Map_RMat3 f1;
            F2 = Map_RMat3 f2;
            P = cubic_coefficients F1 F2;
            (num_roots, roots) = SolveCubicPolynomial P
        in push_back_roots F1 F2 num_roots roots 0 F)"

subsection \<open>EightPointSolver::Solve\<close>

text \<open>
  The block under \<^verbatim>\<open>if (x1.cols() > 8)\<close>: decompose, zero the third singular value,
  multiply back.
\<close>

definition force_rank2 :: "(Mat3 \<Rightarrow> Mat3 \<times> Vec3 \<times> Mat3) \<Rightarrow> Mat3 \<Rightarrow> Mat3" where
  "force_rank2 JacobiSVD F =
     (case JacobiSVD F of (matrixU, singularValues, matrixV) \<Rightarrow>
        let d = singularValues\<lparr>vz := 0\<rparr>
        in mult3 (mult3 matrixU (asDiagonal d)) (transpose3 matrixV))"

text \<open>
  "Zeroing the smallest singular value", as the specification writes the step: the vector
  of the three values with its least entry replaced by zero. The code zeroes the third
  entry; Eigen documents that \<^verbatim>\<open>JacobiSVD\<close> returns the singular values in decreasing
  order.
\<close>

definition zero_smallest :: "Vec3 \<Rightarrow> Vec3" where
  "zero_smallest d =
     (if vz d \<le> vx d \<and> vz d \<le> vy d then d\<lparr>vz := 0\<rparr>
      else if vy d \<le> vx d then d\<lparr>vy := 0\<rparr>
      else d\<lparr>vx := 0\<rparr>)"

definition EightPointSolver_Solve ::
  "(Mat \<Rightarrow> Mat \<Rightarrow> Mat \<Rightarrow> real list option \<Rightarrow> Mat) \<Rightarrow> (Mat \<Rightarrow> Vec9) \<Rightarrow>
   (Mat3 \<Rightarrow> Mat3 \<times> Vec3 \<times> Mat3) \<Rightarrow> (nat \<Rightarrow> nat \<Rightarrow> real) \<Rightarrow>
   Mat \<Rightarrow> Mat \<Rightarrow> Mat3 list \<Rightarrow> real list option \<Rightarrow> error + Mat3 list"
where
  "EightPointSolver_Solve EncodeEpipolarEquation Nullspace JacobiSVD uninit x1 x2 Fs weights =
     (if 2 \<noteq> rows x1 then Inl AssertionFailed
      else if \<not> 8 \<le> cols x1 then Inl AssertionFailed
      else if rows x1 \<noteq> rows x2 then Inl AssertionFailed
      else if cols x1 \<noteq> cols x2 then Inl AssertionFailed
      else
        let f = (if cols x1 = 8
                 then Nullspace (EncodeEpipolarEquation x1 x2 (Mat_Zero 9 9) weights)
                 else Nullspace (EncodeEpipolarEquation x1 x2
                        \<lparr>rows = cols x1, cols = 9, coeff = uninit\<rparr> weights));
            F = Map_RMat3 f;
            F' = (if cols x1 > 8 then force_rank2 JacobiSVD F else F)
        in Inr (Fs @ [F']))"

section \<open>randSampling.hpp\<close>

text \<open>
  The header that defines \<^verbatim>\<open>UniformSample\<close> is not among the sources; only its test
  \<^verbatim>\<open>randSampling_test.cpp\<close> is, which calls \<^verbatim>\<open>UniformSample(numSamples, upperBound, samples)\<close>
  and \<^verbatim>\<open>UniformSample(begin, upperBound, numSamples, samples)\<close>. The four definitions of
  this section follow section 4.1 of the specification. The random-number source is a state
  \<open>g\<close> of any type with a step \<open>draw\<close> that returns a number and the next state; sizes are
  natural numbers.
\<close>

text \<open>
  Modelled from the spec: the exchange of two cells of the pool, the "swap-to-exclude" of
  the partial Fisher-Yates selection (\<^verbatim>\<open>randSampling.hpp\<close> is missing).
\<close>

definition swap_cells :: "nat list \<Rightarrow> nat \<Rightarrow> nat \<Rightarrow> nat list" where
  "swap_cells xs i j = xs[i := xs ! j, j := xs ! i]"

text \<open>
  Modelled from the spec: the selection loop of \<^verbatim>\<open>UniformSample\<close> (\<^verbatim>\<open>randSampling.hpp\<close> is
  missing), "repeatedly draw a candidate from the shrinking remaining range and ...
  swap-to-exclude already-chosen values". At step \<open>i\<close> the cells before \<open>i\<close> hold the values
  already chosen; the draw \<open>r\<close> picks the cell \<open>i + r mod (n - i)\<close> of the remaining range,
  which is exchanged with cell \<open>i\<close>.
\<close>

function select_loop ::
  "('g \<Rightarrow> nat \<times> 'g) \<Rightarrow> nat \<Rightarrow> nat \<Rightarrow> nat list \<Rightarrow> 'g \<Rightarrow> nat list \<times> 'g"
where
  "select_loop draw k i pool g =
     (if i < k then
        (case draw g of (r, g') \<Rightarrow>
           select_loop draw k (Suc i) (swap_cells pool i (i + r mod (length pool - i))) g')
      else (pool, g))"
  by pat_completeness auto
termination
  by (relation "measure (\<lambda>(draw, k, i, pool, g). k - i)") auto

declare select_loop.simps [simp del]

text \<open>
  Modelled from the spec: \<^verbatim>\<open>UniformSample(begin, upperBound, numSamples, samples)\<close>
  (\<^verbatim>\<open>randSampling.hpp\<close> is missing), "given a closed-open integer range \<open>[lo, hi)\<close> and a
  requested count \<open>k\<close> with \<open>k \<le> hi - lo\<close>, produce a collection of exactly \<open>k\<close> distinct
  integers"; "it is a precondition violation (caller error) if \<open>k > hi - lo\<close>;
  implementations should fail fast". The result is the samples and the source's next state.
\<close>

definition UniformSample_range ::
  "('g \<Rightarrow> nat \<times> 'g) \<Rightarrow> nat \<Rightarrow> nat \<Rightarrow> nat \<Rightarrow> 'g \<Rightarrow> error + (nat list \<times> 'g)"
where
  "UniformSample_range draw lowerBound upperBound numSamples g =
     (if upperBound - lowerBound < numSamples then Inl AssertionFailed
      else
        (case select_loop draw numSamples 0 [lowerBound..<upperBound] g of
           (pool, g') \<Rightarrow> Inr (take numSamples pool, g')))"

text \<open>
  Modelled from the spec: \<^verbatim>\<open>UniformSample(numSamples, upperBound, samples)\<close>
  (\<^verbatim>\<open>randSampling.hpp\<close> is missing), the form of the range that starts at 0.
\<close>

definition UniformSample ::
  "('g \<Rightarrow> nat \<times> 'g) \<Rightarrow> nat \<Rightarrow> nat \<Rightarrow> 'g \<Rightarrow> error + (nat list \<times> 'g)"
where
  "UniformSample draw numSamples upperBound g = UniformSample_range draw 0 upperBound numSamples g"

section \<open>Concrete inputs\<close>

text \<open>Fixed inputs on which the theorems below are instantiated.\<close>

text \<open>A stand-in for \<^verbatim>\<open>Eigen::umeyama\<close> where a call needs one: it returns the identity.\<close>

definition example_umeyama :: "Mat \<Rightarrow> Mat \<Rightarrow> Mat4" where
  "example_umeyama x1 x2 = Mat4_Identity"

text \<open>
  The adaptor that the constructor builds from two copies of the 3x2 zero matrix: two
  correspondences, each pairing the origin with the origin.
\<close>

definition example_kernel :: Kernel where
  "example_kernel = \<lparr>m_x1 = Mat_Zero 3 2, m_x2 = Mat_Zero 3 2, m_logalpha0 = log 10 pi\<rparr>"

text \<open>
  Two point sets of two points each, \<open>(1, 2, 3), (0, 0, 0)\<close> and \<open>(4, 4, 4), (1, 1, 1)\<close>,
  and the adaptor that the constructor builds from them.
\<close>

definition example_xA :: Mat where
  "example_xA = \<lparr>rows = 3, cols = 2, coeff = (\<lambda>i j. if j = 0 then real i + 1 else 0)\<rparr>"

definition example_xB :: Mat where
  "example_xB = \<lparr>rows = 3, cols = 2, coeff = (\<lambda>i j. if j = 0 then 4 else 1)\<rparr>"

definition example_points_kernel :: Kernel where
  "example_points_kernel = \<lparr>m_x1 = example_xA, m_x2 = example_xB, m_logalpha0 = log 10 pi\<rparr>"

text \<open>
  A similarity in packed form: the quarter turn about the third axis, scale 1, translation
  \<open>(1, 0, 0)\<close>.
\<close>

definition example_model :: Mat4 where
  "example_model = \<lparr>m00 = 0, m01 = - 1, m02 = 0, m03 = 1, m10 = 1, m11 = 0, m12 = 0, m13 = 0,
                     m20 = 0, m21 = 0, m22 = 1, m23 = 0, m30 = 0, m31 = 0, m32 = 0, m33 = 1\<rparr>"

text \<open>
  Stand-ins for the numerical routines the two solvers are given. The encoder leaves the
  matrix as it is. For the seven-point solver the null-space routine returns two upper
  triangular matrices, with diagonals \<open>(1, 1, 1)\<close> and \<open>(-1, -1/2, -1/3)\<close>, and the
  root-finder reports those of 1, 2 and 3 that are roots of the polynomial, in this order.
  For the eight-point solver the null-space routine returns the matrix with rows
  \<open>(1, 0, 0)\<close>, \<open>(0, 0, 2)\<close>, \<open>(0, 3, 0)\<close>, and the decomposition is a singular value
  decomposition of every matrix of this shape with entries \<open>0 \<le> a00 \<le> a12 \<le> a21\<close>: the
  orthogonal factors are two permutation matrices, and the singular values come in
  decreasing order.
\<close>

definition example_uninit :: "nat \<Rightarrow> nat \<Rightarrow> real" where
  "example_uninit i j = 0"

definition example_EncodeEpipolarEquation :: "Mat \<Rightarrow> Mat \<Rightarrow> Mat \<Rightarrow> real list option \<Rightarrow> Mat" where
  "example_EncodeEpipolarEquation x1 x2 A weights = A"

definition example_Nullspace2 :: "Mat \<Rightarrow> Vec9 \<times> Vec9" where
  "example_Nullspace2 A =
     (\<lparr>c0 = 1, c1 = 2, c2 = 0, c3 = 0, c4 = 1, c5 = 0, c6 = 0, c7 = 0, c8 = 1\<rparr>,
      \<lparr>c0 = - 1, c1 = 5, c2 = 7, c3 = 0, c4 = - 1 / 2, c5 = 11, c6 = 0, c7 = 0, c8 = - 1 / 3\<rparr>)"

definition example_SolveCubicPolynomial :: "real list \<Rightarrow> int \<times> real \<times> real \<times> real" where
  "example_SolveCubicPolynomial P =
     (let found = filter (\<lambda>x. P ! 0 + P ! 1 * x + P ! 2 * x\<^sup>2 + P ! 3 * x ^ 3 = 0) [1, 2, 3];
          cells = found @ [0, 0, 0]
      in (int (length found), cells ! 0, cells ! 1, cells ! 2))"

definition example_Nullspace :: "Mat \<Rightarrow> Vec9" where
  "example_Nullspace A = \<lparr>c0 = 1, c1 = 0, c2 = 0, c3 = 0, c4 = 0, c5 = 2, c6 = 0, c7 = 3, c8 = 0\<rparr>"

definition Mat3_Exchange :: Mat3 where
  "Mat3_Exchange = \<lparr>a00 = 0, a01 = 0, a02 = 1, a10 = 0, a11 = 1, a12 = 0, a20 = 1, a21 = 0, a22 = 0\<rparr>"

definition Mat3_Cycle :: Mat3 where
  "Mat3_Cycle = \<lparr>a00 = 0, a01 = 0, a02 = 1, a10 = 1, a11 = 0, a12 = 0, a20 = 0, a21 = 1, a22 = 0\<rparr>"

definition example_JacobiSVD :: "Mat3 \<Rightarrow> Mat3 \<times> Vec3 \<times> Mat3" where
  "example_JacobiSVD F = (Mat3_Exchange, \<lparr>vx = a21 F, vy = a12 F, vz = a00 F\<rparr>, Mat3_Cycle)"

text \<open>
  A random-number source for the sampling examples: a small linear congruential generator
  that returns its state and steps it.
\<close>

definition example_draw :: "nat \<Rightarrow> nat \<times> nat" where
  "example_draw g = (g, (5 * g + 3) mod 16)"

section \<open>Properties of composeRTS and decomposeRTS\<close>

text \<open>
  Claim C7: after \<^verbatim>\<open>composeRTS(S, t, R, RTS)\<close> the matrix is \<open>[S\<cdot>R | t; 0 0 0 1]\<close>, whatever
  it held before. The function writes the top-left block and the top-right column and
  never the bottom row: called with scale 1, the identity rotation and the zero translation
  on a matrix of zeros, it leaves the bottom row \<open>(0, 0, 0, 0)\<close>, and the result is not the
  identity matrix \<open>[1\<cdot>I | 0; 0 0 0 1]\<close>.
\<close>

theorem composeRTS_bottom_row_at_zero:
  "composeRTS 1 Vec3_Zero Mat3_Identity Mat4_Zero = Mat4_Identity\<lparr>m33 := 0\<rparr>
   \<and> composeRTS 1 Vec3_Zero Mat3_Identity Mat4_Zero \<noteq> Mat4_Identity"
  by (simp add: composeRTS_def set_topLeftCorner33_def set_topRightCorner31_def smult3_def
      Vec3_Zero_def Mat3_Identity_def Mat4_Zero_def Mat4_Identity_def)

text \<open>
  Claim C10: whenever \<^verbatim>\<open>decomposeRTS\<close> returns false, \<open>t\<close> is as it was and \<open>R\<close> holds the
  raw top-left block of the input; \<open>S\<close> is as it was when the determinant is negative, and
  holds the computed scale (which is below epsilon) when the failure is the scale guard's.
\<close>

theorem decomposeRTS_failure_frame:
  assumes "decomposeRTS RTS S t R = (False, S', t', R')"
  shows "t' = t \<and> R' = topLeftCorner33 RTS
    \<and> (determinant3 (topLeftCorner33 RTS) < 0 \<longrightarrow> S' = S)
    \<and> (\<not> determinant3 (topLeftCorner33 RTS) < 0 \<longrightarrow>
         S' = determinant3 (topLeftCorner33 RTS) powr (1 / 3) \<and> S' < epsilon)"
  using assms by (auto simp: decomposeRTS_def Let_def split: if_splits)

text \<open>
  C10 on the zero matrix (the scale guard fails: \<open>S\<close> becomes 0, \<open>R\<close> the zero block) and on
  the identity with its first coefficient negated (the determinant guard fails: \<open>S\<close> stays 5).
\<close>

theorem decomposeRTS_failure_frame_witness:
  "decomposeRTS Mat4_Zero 5 \<lparr>vx = 1, vy = 2, vz = 3\<rparr> Mat3_Identity
     = (False, 0, \<lparr>vx = 1, vy = 2, vz = 3\<rparr>, Mat3_Zero)
   \<and> topLeftCorner33 Mat4_Zero = Mat3_Zero
   \<and> \<not> determinant3 (topLeftCorner33 Mat4_Zero) < 0
   \<and> determinant3 (topLeftCorner33 Mat4_Zero) powr (1 / 3) = 0
   \<and> decomposeRTS (Mat4_Identity\<lparr>m00 := - 1\<rparr>) 5 \<lparr>vx = 1, vy = 2, vz = 3\<rparr> Mat3_Zero
     = (False, 5, \<lparr>vx = 1, vy = 2, vz = 3\<rparr>, Mat3_Identity\<lparr>a00 := - 1\<rparr>)
   \<and> determinant3 (topLeftCorner33 (Mat4_Identity\<lparr>m00 := - 1\<rparr>)) < 0"
proof -
  have d1: "determinant3 (topLeftCorner33 (Mat4_Identity\<lparr>m00 := - 1\<rparr>)) = - 1"
    by (simp add: determinant3_def topLeftCorner33_def Mat4_Identity_def)
  have d2: "determinant3 (topLeftCorner33 Mat4_Zero) = 0"
    by (simp add: determinant3_def topLeftCorner33_def Mat4_Zero_def)
  have t1: "topLeftCorner33 Mat4_Zero = Mat3_Zero"
    by (simp add: topLeftCorner33_def Mat4_Zero_def Mat3_Zero_def)
  have t2: "topLeftCorner33 (Mat4_Identity\<lparr>m00 := - 1\<rparr>) = Mat3_Identity\<lparr>a00 := - 1\<rparr>"
    by (simp add: topLeftCorner33_def Mat4_Identity_def Mat3_Identity_def)
  have e: "0 < epsilon"
    by (simp add: epsilon_def)
  have d2z: "determinant3 Mat3_Zero = 0"
    by (simp add: determinant3_def Mat3_Zero_def)
  have r1: "decomposeRTS Mat4_Zero 5 \<lparr>vx = 1, vy = 2, vz = 3\<rparr> Mat3_Identity
     = (False, 0, \<lparr>vx = 1, vy = 2, vz = 3\<rparr>, Mat3_Zero)"
    by (simp add: decomposeRTS_def Let_def d2z t1 e)
  have d1z: "determinant3 (Mat3_Identity\<lparr>a00 := - 1\<rparr>) = - 1"
    by (simp add: determinant3_def Mat3_Identity_def)
  have r2: "decomposeRTS (Mat4_Identity\<lparr>m00 := - 1\<rparr>) 5 \<lparr>vx = 1, vy = 2, vz = 3\<rparr> Mat3_Zero
     = (False, 5, \<lparr>vx = 1, vy = 2, vz = 3\<rparr>, Mat3_Identity\<lparr>a00 := - 1\<rparr>)"
    by (simp add: decomposeRTS_def Let_def d1z t2)
  show ?thesis
    using decomposeRTS_failure_frame [OF r1] decomposeRTS_failure_frame [OF r2]
    by (simp add: r1 r2 d1 d2 d1z d2z)
qed

section \<open>Properties of FindRTS and of the kernel adaptor\<close>

text \<open>
  Claim C8, amended: \<^verbatim>\<open>FindRTS\<close> called with fewer than three columns in either point set
  returns false, a boolean failure, and leaves \<open>S\<close>, \<open>t\<close> and \<open>R\<close> as they were; no
  assertion is reached.
\<close>

theorem FindRTS_too_few_points:
  assumes "cols x1 < 3 \<or> cols x2 < 3"
  shows "FindRTS umeyama x1 x2 S t R = Inr (False, S, t, R)"
  using assms by (simp add: FindRTS_def)

text \<open>
  C8 as amended, on two point sets of two points each.
\<close>

theorem FindRTS_too_few_points_witness:
  "cols (Mat_Zero 3 2) < 3
   \<and> FindRTS example_umeyama (Mat_Zero 3 2) (Mat_Zero 3 2) 7 Vec3_Zero Mat3_Identity
       = Inr (False, 7, Vec3_Zero, Mat3_Identity)"
proof -
  have c: "cols (Mat_Zero 3 2) < 3"
    by (simp add: Mat_Zero_def)
  then have "cols (Mat_Zero 3 2) < 3 \<or> cols (Mat_Zero 3 2) < 3"
    by simp
  from FindRTS_too_few_points [OF this] c show ?thesis
    by simp
qed

text \<open>
  Claim C8 as stated fails: on two point sets of two points each, \<^verbatim>\<open>FindRTS\<close> does not
  stop at an assertion.
\<close>

theorem FindRTS_two_points_no_assertion:
  "cols (Mat_Zero 3 2) < 3
   \<and> FindRTS example_umeyama (Mat_Zero 3 2) (Mat_Zero 3 2) 7 Vec3_Zero Mat3_Identity
       \<noteq> Inl AssertionFailed"
  by (simp add: FindRTS_def Mat_Zero_def)

lemma Square_norm3: "Square (norm3 v) = squaredNorm v"
proof -
  have "0 \<le> squaredNorm v"
    by (simp add: squaredNorm_def)
  then show ?thesis
    by (simp add: Square_def norm3_def)
qed

lemma squaredNorm_residual:
  "squaredNorm (subvec3 p2 (addvec3 (mulvec3 (topLeftCorner33 M) p1) (topRightCorner31 M)))
     = squared_residual M p1 p2"
  by (simp add: squaredNorm_def subvec3_def addvec3_def mulvec3_def topLeftCorner33_def
      topRightCorner31_def squared_residual_def power2_eq_square)

lemma Square_RTSSolver_Error: "Square (RTSSolver_Error M p1 p2) = squared_residual M p1 p2"
  by (simp add: RTSSolver_Error_def Let_def Square_norm3 squaredNorm_residual)

lemma RTSSquaredResidualError_Error_eq:
  "RTSSquaredResidualError_Error M p1 p2 = squared_residual M p1 p2"
  by (simp add: RTSSquaredResidualError_Error_def Let_def squaredNorm_residual)

lemma constructor_shapes:
  assumes "ACKernelAdaptor_PointsRegistrationSRT xA xB = Inr k"
  shows "m_x1 k = xA" and "m_x2 k = xB" and "rows xA = 3" and "rows xB = 3"
    and "cols xB = cols xA"
  using assms by (auto simp: ACKernelAdaptor_PointsRegistrationSRT_def split: if_splits)

lemma col_in_range:
  assumes "rows m = 3" and "j < cols m"
  shows "col m j = Inr \<lparr>vx = coeff m 0 j, vy = coeff m 1 j, vz = coeff m 2 j\<rparr>"
  using assms by (simp add: col_def)

text \<open>
  Claim C6: for every error-metric instantiation of the adaptor, \<^verbatim>\<open>Error(i, M)\<close> returns
  the squared residual of \<open>M\<close> on correspondence \<open>i\<close>. The adaptor squares what the metric
  returns. On the point sets \<open>(1, 2, 3), (0, 0, 0)\<close> and \<open>(4, 4, 4), (1, 1, 1)\<close> and the
  model that turns by a quarter about the third axis and then translates by \<open>(1, 0, 0)\<close>,
  the squared residual of correspondence 0 is 35; with the metric \<^verbatim>\<open>RTSSolver::Error\<close>,
  which returns the norm, \<^verbatim>\<open>Error(0, M)\<close> returns 35, and with the metric
  \<^verbatim>\<open>RTSSquaredResidualError\<close>, which returns the squared norm already, it returns 1225.
\<close>

theorem ACKernelAdaptor_Error_fourth_power:
  "ACKernelAdaptor_PointsRegistrationSRT example_xA example_xB = Inr example_points_kernel
   \<and> col example_xA 0 = Inr \<lparr>vx = 1, vy = 2, vz = 3\<rparr>
   \<and> col example_xB 0 = Inr \<lparr>vx = 4, vy = 4, vz = 4\<rparr>
   \<and> squared_residual example_model
        \<lparr>vx = 1, vy = 2, vz = 3\<rparr> \<lparr>vx = 4, vy = 4, vz = 4\<rparr> = 35
   \<and> ACKernelAdaptor_Error RTSSolver_Error example_points_kernel 0
        example_model = Inr 35
   \<and> ACKernelAdaptor_Error RTSSquaredResidualError_Error example_points_kernel 0
        example_model = Inr 1225"
proof -
  have k: "ACKernelAdaptor_PointsRegistrationSRT example_xA example_xB = Inr example_points_kernel"
    by (simp add: ACKernelAdaptor_PointsRegistrationSRT_def example_xA_def example_xB_def
        example_points_kernel_def)
  have cA: "col example_xA 0 = Inr \<lparr>vx = 1, vy = 2, vz = 3\<rparr>"
    by (simp add: col_def example_xA_def)
  have cB: "col example_xB 0 = Inr \<lparr>vx = 4, vy = 4, vz = 4\<rparr>"
    by (simp add: col_def example_xB_def)
  have r: "squared_residual example_model
        \<lparr>vx = 1, vy = 2, vz = 3\<rparr> \<lparr>vx = 4, vy = 4, vz = 4\<rparr> = 35"
    by (simp add: squared_residual_def example_model_def)
  have e1: "ACKernelAdaptor_Error RTSSolver_Error example_points_kernel 0
        example_model = Inr 35"
    by (simp add: ACKernelAdaptor_Error_def example_points_kernel_def cA cB
        Square_RTSSolver_Error r)
  have e2: "ACKernelAdaptor_Error RTSSquaredResidualError_Error example_points_kernel 0
        example_model = Inr 1225"
    by (simp add: ACKernelAdaptor_Error_def example_points_kernel_def cA cB
        RTSSquaredResidualError_Error_eq r Square_def)
  show ?thesis
    using k cA cB r e1 e2 by simp
qed

lemma length_resize: "length (resize n xs) = n"
  by (simp add: resize_def)

lemma Errors_loop_inv:
  assumes "rows (m_x1 k) = 3" and "rows (m_x2 k) = 3" and "cols (m_x2 k) = cols (m_x1 k)"
    and "length vec = cols (m_x1 k)" and "sample \<le> cols (m_x1 k)"
  shows "\<exists>vec'. Errors_loop E k M sample vec = Inr vec' \<and> length vec' = cols (m_x1 k)
     \<and> (\<forall>i<sample. vec' ! i = vec ! i)
     \<and> (\<forall>i. sample \<le> i \<and> i < cols (m_x1 k) \<longrightarrow> ACKernelAdaptor_Error E k i M = Inr (vec' ! i))"
  using assms
proof (induction E k M sample vec rule: Errors_loop.induct)
  case (1 E k M sample vec)
  show ?case
  proof (cases "sample < cols (m_x1 k)")
    case False
    then have "Errors_loop E k M sample vec = Inr vec"
      by (simp add: Errors_loop.simps [of E k M sample vec])
    with False "1.prems" show ?thesis
      by auto
  next
    case True
    define p1 where "p1 = \<lparr>vx = coeff (m_x1 k) 0 sample, vy = coeff (m_x1 k) 1 sample,
      vz = coeff (m_x1 k) 2 sample\<rparr>"
    define p2 where "p2 = \<lparr>vx = coeff (m_x2 k) 0 sample, vy = coeff (m_x2 k) 1 sample,
      vz = coeff (m_x2 k) 2 sample\<rparr>"
    define vec1 where "vec1 = vec[sample := Square (E M p1 p2)]"
    have c1: "col (m_x1 k) sample = Inr p1"
      using True "1.prems" by (simp add: col_in_range p1_def)
    have c2: "col (m_x2 k) sample = Inr p2"
      using True "1.prems" by (simp add: col_in_range p2_def)
    have step: "Errors_loop E k M sample vec = Errors_loop E k M (Suc sample) vec1"
      using True by (simp add: Errors_loop.simps [of E k M sample vec] c1 c2 vec1_def)
    have here: "ACKernelAdaptor_Error E k sample M = Inr (vec1 ! sample)"
      using True "1.prems" by (simp add: ACKernelAdaptor_Error_def c1 c2 vec1_def)
    have "\<exists>vec'. Errors_loop E k M (Suc sample) vec1 = Inr vec' \<and> length vec' = cols (m_x1 k)
       \<and> (\<forall>i<Suc sample. vec' ! i = vec1 ! i)
       \<and> (\<forall>i. Suc sample \<le> i \<and> i < cols (m_x1 k)
            \<longrightarrow> ACKernelAdaptor_Error E k i M = Inr (vec' ! i))"
      using "1.IH" [OF True c1 c2] True "1.prems" by (simp add: vec1_def)
    then obtain vec' where v: "Errors_loop E k M (Suc sample) vec1 = Inr vec'"
      "length vec' = cols (m_x1 k)" "\<forall>i<Suc sample. vec' ! i = vec1 ! i"
      "\<forall>i. Suc sample \<le> i \<and> i < cols (m_x1 k)
            \<longrightarrow> ACKernelAdaptor_Error E k i M = Inr (vec' ! i)"
      by blast
    have before: "\<forall>i<sample. vec' ! i = vec ! i"
      using v(3) by (simp add: vec1_def)
    have after: "ACKernelAdaptor_Error E k i M = Inr (vec' ! i)"
      if "sample \<le> i \<and> i < cols (m_x1 k)" for i
    proof (cases "i = sample")
      case True
      then show ?thesis using here v(3) by simp
    next
      case False
      with that v(4) show ?thesis by simp
    qed
    show ?thesis
      using step v(1,2) before after by simp
  qed
qed

text \<open>
  Claim C9: for every adaptor the constructor accepts, every model and every prior content
  of the output vector, \<^verbatim>\<open>Errors(M, vec_errors)\<close> returns a vector of length
  \<^verbatim>\<open>NumSamples()\<close> whose \<open>i\<close>-th entry is what \<^verbatim>\<open>Error(i, M)\<close> returns, for every \<open>i\<close>
  below \<^verbatim>\<open>NumSamples()\<close>.
\<close>

theorem ACKernelAdaptor_Errors_pointwise:
  assumes "ACKernelAdaptor_PointsRegistrationSRT xA xB = Inr k"
  shows "\<exists>vec. ACKernelAdaptor_Errors ErrorT k M vec_errors = Inr vec
     \<and> length vec = NumSamples k
     \<and> (\<forall>i<NumSamples k. ACKernelAdaptor_Error ErrorT k i M = Inr (vec ! i))"
proof -
  note sh = constructor_shapes [OF assms]
  have "\<exists>vec'. Errors_loop ErrorT k M 0 (resize (cols (m_x1 k)) vec_errors) = Inr vec'
     \<and> length vec' = cols (m_x1 k)
     \<and> (\<forall>i<0. vec' ! i = resize (cols (m_x1 k)) vec_errors ! i)
     \<and> (\<forall>i. 0 \<le> i \<and> i < cols (m_x1 k) \<longrightarrow> ACKernelAdaptor_Error ErrorT k i M = Inr (vec' ! i))"
    by (rule Errors_loop_inv) (simp_all add: sh length_resize)
  then show ?thesis
    by (auto simp: ACKernelAdaptor_Errors_def NumSamples_def)
qed

text \<open>
  C9 on the example adaptor, the model that translates by \<open>(2, 0, 0)\<close> and an output vector
  that held three entries before the call.
\<close>

theorem ACKernelAdaptor_Errors_pointwise_witness:
  "ACKernelAdaptor_PointsRegistrationSRT (Mat_Zero 3 2) (Mat_Zero 3 2) = Inr example_kernel
   \<and> NumSamples example_kernel = 2
   \<and> ACKernelAdaptor_Error RTSSolver_Error example_kernel 0 (Mat4_Identity\<lparr>m03 := 2\<rparr>) = Inr 4
   \<and> ACKernelAdaptor_Error RTSSolver_Error example_kernel 1 (Mat4_Identity\<lparr>m03 := 2\<rparr>) = Inr 4
   \<and> ACKernelAdaptor_Errors RTSSolver_Error example_kernel (Mat4_Identity\<lparr>m03 := 2\<rparr>) [9, 9, 9]
       = Inr [4, 4]"
proof -
  have k: "ACKernelAdaptor_PointsRegistrationSRT (Mat_Zero 3 2) (Mat_Zero 3 2) = Inr example_kernel"
    by (simp add: ACKernelAdaptor_PointsRegistrationSRT_def Mat_Zero_def example_kernel_def)
  have n: "NumSamples example_kernel = 2"
    by (simp add: NumSamples_def example_kernel_def Mat_Zero_def)
  have c: "col (Mat_Zero 3 2) i = Inr Vec3_Zero" if "i < 2" for i
    using that by (simp add: col_def Mat_Zero_def Vec3_Zero_def)
  have r: "squared_residual (Mat4_Identity\<lparr>m03 := 2\<rparr>) Vec3_Zero Vec3_Zero = 4"
    by (simp add: squared_residual_def Mat4_Identity_def Vec3_Zero_def)
  have e: "ACKernelAdaptor_Error RTSSolver_Error example_kernel i (Mat4_Identity\<lparr>m03 := 2\<rparr>)
      = Inr 4" if "i < 2" for i
    using that by (simp add: ACKernelAdaptor_Error_def example_kernel_def c
        Square_RTSSolver_Error r)
  obtain vec where v:
    "ACKernelAdaptor_Errors RTSSolver_Error example_kernel (Mat4_Identity\<lparr>m03 := 2\<rparr>) [9, 9, 9]
       = Inr vec"
    "length vec = NumSamples example_kernel"
    "\<forall>i<NumSamples example_kernel.
       ACKernelAdaptor_Error RTSSolver_Error example_kernel i (Mat4_Identity\<lparr>m03 := 2\<rparr>)
         = Inr (vec ! i)"
    using ACKernelAdaptor_Errors_pointwise [OF k, of RTSSolver_Error
        "Mat4_Identity\<lparr>m03 := 2\<rparr>" "[9, 9, 9]"]
    by blast
  have entries: "vec ! i = 4" if "i < 2" for i
    using that v(3) e [OF that] by (simp add: n)
  have "vec = [4, 4]"
  proof (rule nth_equalityI)
    show "length vec = length [4, 4 :: real]"
      using v(2) n by simp
  next
    fix i
    assume "i < length vec"
    then have i: "i < 2"
      using v(2) n by simp
    then have "i = 0 \<or> i = 1"
      by auto
    with entries [OF i] show "vec ! i = [4, 4] ! i"
      by auto
  qed
  with v(1) k n e [of 0] e [of 1] show ?thesis
    by simp
qed

section \<open>Properties of the fundamental-matrix solvers\<close>

lemma cubic_coefficients_determinant3:
  "cubic_coefficients F1 F2 ! 0 + cubic_coefficients F1 F2 ! 1 * x
     + cubic_coefficients F1 F2 ! 2 * x\<^sup>2 + cubic_coefficients F1 F2 ! 3 * x ^ 3
   = determinant3 (add3 F1 (smult3 x F2))"
  by (simp add: cubic_coefficients_def Let_def determinant3_def add3_def smult3_def
      power2_eq_square power3_eq_cube algebra_simps)

lemma push_back_roots_stop:
  assumes "\<not> kk < num_roots"
  shows "push_back_roots F1 F2 num_roots roots kk F = Inr F"
  using assms by (simp add: push_back_roots.simps [of F1 F2 num_roots roots kk F])

lemma push_back_roots_step:
  assumes "kk < num_roots" and "roots_at roots kk = Inr alpha"
  shows "push_back_roots F1 F2 num_roots roots kk F
    = push_back_roots F1 F2 num_roots roots (kk + 1) (F @ [add3 F1 (smult3 alpha F2)])"
  using assms by (simp add: push_back_roots.simps [of F1 F2 num_roots roots kk F])

lemma roots_at_cells:
  "roots_at (r0, r1, r2) 0 = Inr r0"
  "roots_at (r0, r1, r2) 1 = Inr r1"
  "roots_at (r0, r1, r2) 2 = Inr r2"
  by (simp_all add: roots_at_def)

lemma push_back_roots_cells:
  assumes "num_roots \<le> 3"
  shows "push_back_roots F1 F2 num_roots (r0, r1, r2) 0 F
    = Inr (F @ take (nat num_roots)
        [add3 F1 (smult3 r0 F2), add3 F1 (smult3 r1 F2), add3 F1 (smult3 r2 F2)])"
proof -
  from assms consider "num_roots \<le> 0" | "num_roots = 1" | "num_roots = 2" | "num_roots = 3"
    by linarith
  then show ?thesis
  proof cases
    case 1
    then show ?thesis
      by (simp add: push_back_roots_stop)
  next
    case 2
    have "push_back_roots F1 F2 1 (r0, r1, r2) 0 F
        = push_back_roots F1 F2 1 (r0, r1, r2) (0 + 1) (F @ [add3 F1 (smult3 r0 F2)])"
      by (rule push_back_roots_step) (simp_all add: roots_at_cells)
    also have "\<dots> = Inr (F @ [add3 F1 (smult3 r0 F2)])"
      by (rule push_back_roots_stop) simp
    finally show ?thesis
      using 2 by simp
  next
    case 3
    have "push_back_roots F1 F2 2 (r0, r1, r2) 0 F
        = push_back_roots F1 F2 2 (r0, r1, r2) (0 + 1) (F @ [add3 F1 (smult3 r0 F2)])"
      by (rule push_back_roots_step) (simp_all add: roots_at_cells)
    also have "\<dots> = push_back_roots F1 F2 2 (r0, r1, r2) (0 + 1 + 1)
        ((F @ [add3 F1 (smult3 r0 F2)]) @ [add3 F1 (smult3 r1 F2)])"
      by (rule push_back_roots_step) (simp_all add: roots_at_cells)
    also have "\<dots> = Inr ((F @ [add3 F1 (smult3 r0 F2)]) @ [add3 F1 (smult3 r1 F2)])"
      by (rule push_back_roots_stop) simp
    finally show ?thesis
      using 3 by (simp add: numeral_2_eq_2)
  next
    case 4
    have "push_back_roots F1 F2 3 (r0, r1, r2) 0 F
        = push_back_roots F1 F2 3 (r0, r1, r2) (0 + 1) (F @ [add3 F1 (smult3 r0 F2)])"
      by (rule push_back_roots_step) (simp_all add: roots_at_cells)
    also have "\<dots> = push_back_roots F1 F2 3 (r0, r1, r2) (0 + 1 + 1)
        ((F @ [add3 F1 (smult3 r0 F2)]) @ [add3 F1 (smult3 r1 F2)])"
      by (rule push_back_roots_step) (simp_all add: roots_at_cells)
    also have "\<dots> = push_back_roots F1 F2 3 (r0, r1, r2) (0 + 1 + 1 + 1)
        (((F @ [add3 F1 (smult3 r0 F2)]) @ [add3 F1 (smult3 r1 F2)]) @ [add3 F1 (smult3 r2 F2)])"
      by (rule push_back_roots_step) (simp_all add: roots_at_cells)
    also have "\<dots> = Inr (((F @ [add3 F1 (smult3 r0 F2)]) @ [add3 F1 (smult3 r1 F2)])
        @ [add3 F1 (smult3 r2 F2)])"
      by (rule push_back_roots_stop) simp
    finally show ?thesis
      using 4 by (simp add: numeral_3_eq_3)
  qed
qed

text \<open>
  Claim C4: on every input that passes its assertions, with \<open>F1\<close> and \<open>F2\<close> the two
  null-space matrices, the seven-point solver hands the root-finder the coefficients of
  \<open>det(F1 + x\<cdot>F2)\<close>. When the root-finder reports \<open>num_roots\<close> roots (at most three, the
  cells of the array) and leaves \<open>r0\<close>, \<open>r1\<close>, \<open>r2\<close> in the array, the solver appends
  the first \<open>num_roots\<close> of \<open>F1 + r0\<cdot>F2\<close>, \<open>F1 + r1\<cdot>F2\<close>, \<open>F1 + r2\<cdot>F2\<close>, in this
  order and nothing else: as many candidates as reported roots, one for each. When zero
  roots are reported, nothing is appended and the call returns normally.
\<close>

theorem SevenPointSolver_Solve_candidates:
  assumes "rows x1 = 2" and "7 \<le> cols x1" and "rows x2 = 2" and "cols x2 = cols x1"
    and "A = (if cols x1 = 7 then Mat_Zero 9 9 else \<lparr>rows = cols x1, cols = 9, coeff = uninit\<rparr>)"
    and "Nullspace2 (EncodeEpipolarEquation x1 x2 A None) = (f1, f2)"
    and "F1 = Map_RMat3 f1" and "F2 = Map_RMat3 f2"
    and "SolveCubicPolynomial (cubic_coefficients F1 F2) = (num_roots, r0, r1, r2)"
    and "num_roots \<le> 3"
  shows "(\<forall>x. cubic_coefficients F1 F2 ! 0 + cubic_coefficients F1 F2 ! 1 * x
            + cubic_coefficients F1 F2 ! 2 * x\<^sup>2 + cubic_coefficients F1 F2 ! 3 * x ^ 3
          = determinant3 (add3 F1 (smult3 x F2)))
     \<and> SevenPointSolver_Solve EncodeEpipolarEquation Nullspace2 SolveCubicPolynomial
         uninit x1 x2 F
       = Inr (F @ take (nat num_roots)
           [add3 F1 (smult3 r0 F2), add3 F1 (smult3 r1 F2), add3 F1 (smult3 r2 F2)])
     \<and> int (length (take (nat num_roots)
           [add3 F1 (smult3 r0 F2), add3 F1 (smult3 r1 F2), add3 F1 (smult3 r2 F2)]))
         = max 0 num_roots
     \<and> (num_roots = 0 \<longrightarrow>
          SevenPointSolver_Solve EncodeEpipolarEquation Nullspace2 SolveCubicPolynomial
            uninit x1 x2 F = Inr F)"
proof -
  have ns: "(if cols x1 = 7
             then Nullspace2 (EncodeEpipolarEquation x1 x2 (Mat_Zero 9 9) None)
             else Nullspace2 (EncodeEpipolarEquation x1 x2
                    \<lparr>rows = cols x1, cols = 9, coeff = uninit\<rparr> None)) = (f1, f2)"
    using assms(5,6) by (simp split: if_splits)
  have solve: "SevenPointSolver_Solve EncodeEpipolarEquation Nullspace2 SolveCubicPolynomial
      uninit x1 x2 F
    = push_back_roots F1 F2 num_roots (r0, r1, r2) 0 F"
    unfolding SevenPointSolver_Solve_def ns
    using assms(1-4,9) by (simp add: Let_def assms(7,8) [symmetric])
  have cells: "push_back_roots F1 F2 num_roots (r0, r1, r2) 0 F
    = Inr (F @ take (nat num_roots)
        [add3 F1 (smult3 r0 F2), add3 F1 (smult3 r1 F2), add3 F1 (smult3 r2 F2)])"
    using assms(10) by (rule push_back_roots_cells)
  have len: "int (length (take (nat num_roots)
           [add3 F1 (smult3 r0 F2), add3 F1 (smult3 r1 F2), add3 F1 (smult3 r2 F2)]))
         = max 0 num_roots"
    using assms(10) by simp
  show ?thesis
  proof (intro conjI allI impI)
    fix x
    show "cubic_coefficients F1 F2 ! 0 + cubic_coefficients F1 F2 ! 1 * x
            + cubic_coefficients F1 F2 ! 2 * x\<^sup>2 + cubic_coefficients F1 F2 ! 3 * x ^ 3
          = determinant3 (add3 F1 (smult3 x F2))"
      by (rule cubic_coefficients_determinant3)
  next
    show "SevenPointSolver_Solve EncodeEpipolarEquation Nullspace2 SolveCubicPolynomial
         uninit x1 x2 F
       = Inr (F @ take (nat num_roots)
           [add3 F1 (smult3 r0 F2), add3 F1 (smult3 r1 F2), add3 F1 (smult3 r2 F2)])"
      by (simp only: solve cells)
  next
    show "int (length (take (nat num_roots)
           [add3 F1 (smult3 r0 F2), add3 F1 (smult3 r1 F2), add3 F1 (smult3 r2 F2)]))
         = max 0 num_roots"
      by (rule len)
  next
    assume "num_roots = 0"
    then have "take (nat num_roots)
        [add3 F1 (smult3 r0 F2), add3 F1 (smult3 r1 F2), add3 F1 (smult3 r2 F2)] = []"
      by simp
    then show "SevenPointSolver_Solve EncodeEpipolarEquation Nullspace2 SolveCubicPolynomial
            uninit x1 x2 F = Inr F"
      by (simp only: solve cells append_Nil2)
  qed
qed

text \<open>
  C4 on seven correspondences with the stand-ins: \<open>F1\<close> and \<open>F2\<close> are upper triangular and
  not symmetric, \<open>det(F1 + x\<cdot>F2) = 1 - 11/6 x + x\<^sup>2 - 1/6 x\<^sup>3\<close>, the three roots 1, 2
  and 3 are reported, and the three candidates are \<open>F1 + F2\<close>, \<open>F1 + 2\<cdot>F2\<close> and
  \<open>F1 + 3\<cdot>F2\<close>, each different from the other two and each of determinant zero.
\<close>

theorem SevenPointSolver_Solve_candidates_witness:
  "rows (Mat_Zero 2 7) = 2 \<and> 7 \<le> cols (Mat_Zero 2 7)
   \<and> cubic_coefficients
        \<lparr>a00 = 1, a01 = 2, a02 = 0, a10 = 0, a11 = 1, a12 = 0, a20 = 0, a21 = 0, a22 = 1\<rparr>
        \<lparr>a00 = - 1, a01 = 5, a02 = 7, a10 = 0, a11 = - 1 / 2, a12 = 11,
          a20 = 0, a21 = 0, a22 = - 1 / 3\<rparr>
       = [1, - 11 / 6, 1, - 1 / 6]
   \<and> example_SolveCubicPolynomial [1, - 11 / 6, 1, - 1 / 6] = (3, 1, 2, 3)
   \<and> SevenPointSolver_Solve example_EncodeEpipolarEquation example_Nullspace2
        example_SolveCubicPolynomial example_uninit (Mat_Zero 2 7) (Mat_Zero 2 7) []
       = Inr [\<lparr>a00 = 0, a01 = 7, a02 = 7, a10 = 0, a11 = 1 / 2, a12 = 11,
                a20 = 0, a21 = 0, a22 = 2 / 3\<rparr>,
              \<lparr>a00 = - 1, a01 = 12, a02 = 14, a10 = 0, a11 = 0, a12 = 22,
                a20 = 0, a21 = 0, a22 = 1 / 3\<rparr>,
              \<lparr>a00 = - 2, a01 = 17, a02 = 21, a10 = 0, a11 = - 1 / 2, a12 = 33,
                a20 = 0, a21 = 0, a22 = 0\<rparr>]
   \<and> determinant3 \<lparr>a00 = 0, a01 = 7, a02 = 7, a10 = 0, a11 = 1 / 2, a12 = 11,
                a20 = 0, a21 = 0, a22 = 2 / 3\<rparr> = 0
   \<and> determinant3 \<lparr>a00 = - 1, a01 = 12, a02 = 14, a10 = 0, a11 = 0, a12 = 22,
                a20 = 0, a21 = 0, a22 = 1 / 3\<rparr> = 0
   \<and> determinant3 \<lparr>a00 = - 2, a01 = 17, a02 = 21, a10 = 0, a11 = - 1 / 2, a12 = 33,
                a20 = 0, a21 = 0, a22 = 0\<rparr> = 0"
proof -
  define f1 :: Vec9 where
    "f1 = \<lparr>c0 = 1, c1 = 2, c2 = 0, c3 = 0, c4 = 1, c5 = 0, c6 = 0, c7 = 0, c8 = 1\<rparr>"
  define f2 :: Vec9 where
    "f2 = \<lparr>c0 = - 1, c1 = 5, c2 = 7, c3 = 0, c4 = - 1 / 2, c5 = 11, c6 = 0, c7 = 0, c8 = - 1 / 3\<rparr>"
  define F1 :: Mat3 where
    "F1 = \<lparr>a00 = 1, a01 = 2, a02 = 0, a10 = 0, a11 = 1, a12 = 0, a20 = 0, a21 = 0, a22 = 1\<rparr>"
  define F2 :: Mat3 where
    "F2 = \<lparr>a00 = - 1, a01 = 5, a02 = 7, a10 = 0, a11 = - 1 / 2, a12 = 11,
          a20 = 0, a21 = 0, a22 = - 1 / 3\<rparr>"
  have s1: "rows (Mat_Zero 2 7) = 2" and s2: "7 \<le> cols (Mat_Zero 2 7)"
    and s3: "cols (Mat_Zero 2 7) = cols (Mat_Zero 2 7)"
    by (simp_all add: Mat_Zero_def)
  have A: "Mat_Zero 9 9 = (if cols (Mat_Zero 2 7) = 7 then Mat_Zero 9 9
      else \<lparr>rows = cols (Mat_Zero 2 7), cols = 9, coeff = example_uninit\<rparr>)"
    by (simp add: Mat_Zero_def)
  have ns: "example_Nullspace2 (example_EncodeEpipolarEquation (Mat_Zero 2 7) (Mat_Zero 2 7)
      (Mat_Zero 9 9) None) = (f1, f2)"
    by (simp add: example_Nullspace2_def f1_def f2_def)
  have F1: "F1 = Map_RMat3 f1"
    by (simp add: Map_RMat3_def f1_def F1_def)
  have F2: "F2 = Map_RMat3 f2"
    by (simp add: Map_RMat3_def f2_def F2_def)
  have P: "cubic_coefficients F1 F2 = [1, - 11 / 6, 1, - 1 / 6]"
    by (simp add: cubic_coefficients_def Let_def F1_def F2_def)
  have r: "example_SolveCubicPolynomial [1, - 11 / 6, 1, - 1 / 6] = (3, 1, 2, 3)"
    by (simp add: example_SolveCubicPolynomial_def Let_def power2_eq_square power3_eq_cube)
  have solve: "example_SolveCubicPolynomial (cubic_coefficients F1 F2) = (3, 1, 2, 3)"
    by (simp only: P r)
  have three: "(3::int) \<le> 3"
    by simp
  have c: "add3 F1 (smult3 1 F2)
      = \<lparr>a00 = 0, a01 = 7, a02 = 7, a10 = 0, a11 = 1 / 2, a12 = 11,
                a20 = 0, a21 = 0, a22 = 2 / 3\<rparr>"
    "add3 F1 (smult3 2 F2)
      = \<lparr>a00 = - 1, a01 = 12, a02 = 14, a10 = 0, a11 = 0, a12 = 22,
                a20 = 0, a21 = 0, a22 = 1 / 3\<rparr>"
    "add3 F1 (smult3 3 F2)
      = \<lparr>a00 = - 2, a01 = 17, a02 = 21, a10 = 0, a11 = - 1 / 2, a12 = 33,
                a20 = 0, a21 = 0, a22 = 0\<rparr>"
    by (simp_all add: add3_def smult3_def F1_def F2_def)
  have dets: "determinant3 \<lparr>a00 = 0, a01 = 7, a02 = 7, a10 = 0, a11 = 1 / 2, a12 = 11,
                a20 = 0, a21 = 0, a22 = 2 / 3\<rparr> = 0"
    "determinant3 \<lparr>a00 = - 1, a01 = 12, a02 = 14, a10 = 0, a11 = 0, a12 = 22,
                a20 = 0, a21 = 0, a22 = 1 / 3\<rparr> = 0"
    "determinant3 \<lparr>a00 = - 2, a01 = 17, a02 = 21, a10 = 0, a11 = - 1 / 2, a12 = 33,
                a20 = 0, a21 = 0, a22 = 0\<rparr> = 0"
    by (simp_all add: determinant3_def)
  have run: "SevenPointSolver_Solve example_EncodeEpipolarEquation example_Nullspace2
        example_SolveCubicPolynomial example_uninit (Mat_Zero 2 7) (Mat_Zero 2 7) []
       = Inr ([] @ take (nat 3)
           [add3 F1 (smult3 1 F2), add3 F1 (smult3 2 F2), add3 F1 (smult3 3 F2)])"
    using SevenPointSolver_Solve_candidates
      [where ?x1.0 = "Mat_Zero 2 7" and ?x2.0 = "Mat_Zero 2 7" and A = "Mat_Zero 9 9"
         and uninit = example_uninit and ?Nullspace2.0 = example_Nullspace2
         and EncodeEpipolarEquation = example_EncodeEpipolarEquation
         and ?f1.0 = f1 and ?f2.0 = f2 and ?F1.0 = F1 and ?F2.0 = F2
         and SolveCubicPolynomial = example_SolveCubicPolynomial
         and num_roots = 3 and ?r0.0 = 1 and ?r1.0 = 2 and ?r2.0 = 3 and F = "[]",
       OF s1 s2 s1 s3 A ns F1 F2 solve three]
    by blast
  have "SevenPointSolver_Solve example_EncodeEpipolarEquation example_Nullspace2
        example_SolveCubicPolynomial example_uninit (Mat_Zero 2 7) (Mat_Zero 2 7) []
       = Inr [add3 F1 (smult3 1 F2), add3 F1 (smult3 2 F2), add3 F1 (smult3 3 F2)]"
    using run by simp
  then show ?thesis
    using s1 s2 P r dets by (simp only: c simp_thms F1_def [symmetric] F2_def [symmetric])
qed

lemma determinant3_mult3: "determinant3 (mult3 A B) = determinant3 A * determinant3 B"
  by (simp add: determinant3_def mult3_def algebra_simps)

lemma determinant3_asDiagonal: "determinant3 (asDiagonal d) = vx d * vy d * vz d"
  by (simp add: determinant3_def asDiagonal_def)

lemma determinant3_force_rank2: "determinant3 (force_rank2 JacobiSVD F) = 0"
  by (cases "JacobiSVD F")
    (simp add: force_rank2_def Let_def determinant3_mult3 determinant3_asDiagonal)

lemma zero_smallest_sorted:
  assumes "vz d \<le> vy d" and "vy d \<le> vx d"
  shows "zero_smallest d = d\<lparr>vz := 0\<rparr>"
  using assms by (simp add: zero_smallest_def)

text \<open>
  Claim C3: on every input of at least eight correspondences that passes its assertions,
  the eight-point solver appends exactly one matrix. With exactly eight correspondences it
  is \<open>F0\<close>, the null-space vector reshaped, untouched. With more than eight it is
  \<open>U \<cdot> diag(d0, d1, 0) \<cdot> V\<^sup>T\<close> for the decomposition \<open>(U, d, V)\<close> that \<^verbatim>\<open>JacobiSVD\<close> returns
  on \<open>F0\<close>: its determinant is zero, and when the singular values come in decreasing order
  (as Eigen documents) the value zeroed is the smallest.
\<close>

theorem EightPointSolver_Solve_one_candidate:
  assumes "rows x1 = 2" and "8 \<le> cols x1" and "rows x2 = 2" and "cols x2 = cols x1"
    and "A = (if cols x1 = 8 then Mat_Zero 9 9 else \<lparr>rows = cols x1, cols = 9, coeff = uninit\<rparr>)"
    and "F0 = Map_RMat3 (Nullspace (EncodeEpipolarEquation x1 x2 A weights))"
    and "JacobiSVD F0 = (U, d, V)"
  shows "\<exists>Fc. EightPointSolver_Solve EncodeEpipolarEquation Nullspace JacobiSVD uninit
                 x1 x2 Fs weights = Inr (Fs @ [Fc])
     \<and> (cols x1 = 8 \<longrightarrow> Fc = F0)
     \<and> (8 < cols x1 \<longrightarrow>
          Fc = mult3 (mult3 U (asDiagonal (d\<lparr>vz := 0\<rparr>))) (transpose3 V)
          \<and> determinant3 Fc = 0
          \<and> (vz d \<le> vy d \<and> vy d \<le> vx d \<longrightarrow>
               Fc = mult3 (mult3 U (asDiagonal (zero_smallest d))) (transpose3 V)))"
proof (cases "cols x1 = 8")
  case True
  then have "EightPointSolver_Solve EncodeEpipolarEquation Nullspace JacobiSVD uninit
      x1 x2 Fs weights = Inr (Fs @ [F0])"
    using assms(1-6) by (simp add: EightPointSolver_Solve_def Let_def)
  with True show ?thesis
    by simp
next
  case False
  with assms(2) have more: "8 < cols x1"
    by simp
  have forced: "force_rank2 JacobiSVD F0
      = mult3 (mult3 U (asDiagonal (d\<lparr>vz := 0\<rparr>))) (transpose3 V)"
    by (simp add: force_rank2_def assms(7) Let_def)
  have solve: "EightPointSolver_Solve EncodeEpipolarEquation Nullspace JacobiSVD uninit
      x1 x2 Fs weights = Inr (Fs @ [force_rank2 JacobiSVD F0])"
    using assms(1-6) False more by (simp add: EightPointSolver_Solve_def Let_def)
  have det: "determinant3 (force_rank2 JacobiSVD F0) = 0"
    by (rule determinant3_force_rank2)
  have smallest: "force_rank2 JacobiSVD F0
      = mult3 (mult3 U (asDiagonal (zero_smallest d))) (transpose3 V)"
    if "vz d \<le> vy d \<and> vy d \<le> vx d"
    using that by (simp add: forced zero_smallest_sorted)
  show ?thesis
    using solve forced det smallest more by auto
qed

text \<open>
  C3 with the stand-ins: \<open>F0\<close> has the rows \<open>(1, 0, 0)\<close>, \<open>(0, 0, 2)\<close>, \<open>(0, 3, 0)\<close> and is
  decomposed with the singular values \<open>(3, 2, 1)\<close>. On eight correspondences the candidate
  is \<open>F0\<close>; on nine it is \<open>F0\<close> with its coefficient 1, the smallest singular value,
  replaced by zero.
\<close>

theorem EightPointSolver_Solve_one_candidate_witness:
  "rows (Mat_Zero 2 8) = 2 \<and> cols (Mat_Zero 2 8) = 8
   \<and> EightPointSolver_Solve example_EncodeEpipolarEquation example_Nullspace example_JacobiSVD
        example_uninit (Mat_Zero 2 8) (Mat_Zero 2 8) [] None
       = Inr [\<lparr>a00 = 1, a01 = 0, a02 = 0, a10 = 0, a11 = 0, a12 = 2, a20 = 0, a21 = 3, a22 = 0\<rparr>]
   \<and> rows (Mat_Zero 2 9) = 2 \<and> 8 < cols (Mat_Zero 2 9)
   \<and> example_JacobiSVD
        \<lparr>a00 = 1, a01 = 0, a02 = 0, a10 = 0, a11 = 0, a12 = 2, a20 = 0, a21 = 3, a22 = 0\<rparr>
       = (Mat3_Exchange, \<lparr>vx = 3, vy = 2, vz = 1\<rparr>, Mat3_Cycle)
   \<and> mult3 (mult3 Mat3_Exchange (asDiagonal \<lparr>vx = 3, vy = 2, vz = 1\<rparr>)) (transpose3 Mat3_Cycle)
       = \<lparr>a00 = 1, a01 = 0, a02 = 0, a10 = 0, a11 = 0, a12 = 2, a20 = 0, a21 = 3, a22 = 0\<rparr>
   \<and> zero_smallest \<lparr>vx = 3, vy = 2, vz = 1\<rparr> = \<lparr>vx = 3, vy = 2, vz = 0\<rparr>
   \<and> EightPointSolver_Solve example_EncodeEpipolarEquation example_Nullspace example_JacobiSVD
        example_uninit (Mat_Zero 2 9) (Mat_Zero 2 9) [] None
       = Inr [\<lparr>a00 = 0, a01 = 0, a02 = 0, a10 = 0, a11 = 0, a12 = 2, a20 = 0, a21 = 3, a22 = 0\<rparr>]"
proof -
  define F0 :: Mat3 where
    "F0 = \<lparr>a00 = 1, a01 = 0, a02 = 0, a10 = 0, a11 = 0, a12 = 2, a20 = 0, a21 = 3, a22 = 0\<rparr>"
  define d :: Vec3 where "d = \<lparr>vx = 3, vy = 2, vz = 1\<rparr>"
  have s8: "rows (Mat_Zero 2 8) = 2" "8 \<le> cols (Mat_Zero 2 8)"
    "cols (Mat_Zero 2 8) = cols (Mat_Zero 2 8)" "cols (Mat_Zero 2 8) = 8"
    by (simp_all add: Mat_Zero_def)
  have s9: "rows (Mat_Zero 2 9) = 2" "8 \<le> cols (Mat_Zero 2 9)"
    "cols (Mat_Zero 2 9) = cols (Mat_Zero 2 9)" "8 < cols (Mat_Zero 2 9)"
    by (simp_all add: Mat_Zero_def)
  have A8: "Mat_Zero 9 9 = (if cols (Mat_Zero 2 8) = 8 then Mat_Zero 9 9
      else \<lparr>rows = cols (Mat_Zero 2 8), cols = 9, coeff = example_uninit\<rparr>)"
    by (simp add: Mat_Zero_def)
  have A9: "\<lparr>rows = 9, cols = 9, coeff = example_uninit\<rparr>
      = (if cols (Mat_Zero 2 9) = 8 then Mat_Zero 9 9
         else \<lparr>rows = cols (Mat_Zero 2 9), cols = 9, coeff = example_uninit\<rparr>)"
    by (simp add: Mat_Zero_def)
  have F: "F0 = Map_RMat3 (example_Nullspace A)" for A
    by (simp add: Map_RMat3_def example_Nullspace_def F0_def)
  have svd: "example_JacobiSVD F0 = (Mat3_Exchange, d, Mat3_Cycle)"
    by (simp add: example_JacobiSVD_def F0_def d_def)
  have valid: "mult3 (mult3 Mat3_Exchange (asDiagonal d)) (transpose3 Mat3_Cycle) = F0"
    by (simp add: mult3_def asDiagonal_def transpose3_def Mat3_Exchange_def Mat3_Cycle_def
        d_def F0_def)
  have zs: "zero_smallest d = \<lparr>vx = 3, vy = 2, vz = 0\<rparr>"
    by (simp add: zero_smallest_def d_def)
  have forced: "mult3 (mult3 Mat3_Exchange (asDiagonal (d\<lparr>vz := 0\<rparr>)))
      (transpose3 Mat3_Cycle)
      = \<lparr>a00 = 0, a01 = 0, a02 = 0, a10 = 0, a11 = 0, a12 = 2, a20 = 0, a21 = 3, a22 = 0\<rparr>"
    by (simp add: mult3_def asDiagonal_def transpose3_def Mat3_Exchange_def Mat3_Cycle_def
        d_def)
  obtain Fc8 where c8:
    "EightPointSolver_Solve example_EncodeEpipolarEquation example_Nullspace example_JacobiSVD
        example_uninit (Mat_Zero 2 8) (Mat_Zero 2 8) [] None = Inr ([] @ [Fc8])"
    "cols (Mat_Zero 2 8) = 8 \<longrightarrow> Fc8 = F0"
    using EightPointSolver_Solve_one_candidate
      [where ?x1.0 = "Mat_Zero 2 8" and ?x2.0 = "Mat_Zero 2 8" and A = "Mat_Zero 9 9"
         and uninit = example_uninit and Nullspace = example_Nullspace
         and EncodeEpipolarEquation = example_EncodeEpipolarEquation
         and JacobiSVD = example_JacobiSVD and weights = None and ?F0.0 = F0
         and U = Mat3_Exchange and d = d and V = Mat3_Cycle and Fs = "[]",
       OF s8(1,2) s8(1) s8(3) A8 F svd]
    by blast
  obtain Fc9 where c9:
    "EightPointSolver_Solve example_EncodeEpipolarEquation example_Nullspace example_JacobiSVD
        example_uninit (Mat_Zero 2 9) (Mat_Zero 2 9) [] None = Inr ([] @ [Fc9])"
    "8 < cols (Mat_Zero 2 9) \<longrightarrow>
       Fc9 = mult3 (mult3 Mat3_Exchange (asDiagonal (d\<lparr>vz := 0\<rparr>)))
               (transpose3 Mat3_Cycle)"
    using EightPointSolver_Solve_one_candidate
      [where ?x1.0 = "Mat_Zero 2 9" and ?x2.0 = "Mat_Zero 2 9"
         and A = "\<lparr>rows = 9, cols = 9, coeff = example_uninit\<rparr>"
         and uninit = example_uninit and Nullspace = example_Nullspace
         and EncodeEpipolarEquation = example_EncodeEpipolarEquation
         and JacobiSVD = example_JacobiSVD and weights = None and ?F0.0 = F0
         and U = Mat3_Exchange and d = d and V = Mat3_Cycle and Fs = "[]",
       OF s9(1,2) s9(1) s9(3) A9 F svd]
    by blast
  have v8: "Fc8 = F0"
    using c8(2) s8(4) by simp
  have v9: "Fc9 = \<lparr>a00 = 0, a01 = 0, a02 = 0, a10 = 0, a11 = 0, a12 = 2, a20 = 0, a21 = 3, a22 = 0\<rparr>"
    using c9(2) s9(4) by (simp only: forced simp_thms)
  show ?thesis
    using c8(1) c9(1) s8(1,4) s9(1,4) svd valid zs
    by (simp only: v8 v9 append_Nil simp_thms F0_def [symmetric] d_def [symmetric])
qed

section \<open>Properties of the sampling primitive\<close>

lemma mset_swap_cells:
  assumes "i < length xs" and "j < length xs"
  shows "mset (swap_cells xs i j) = mset xs"
  using assms by (simp add: swap_cells_def mset_swap)

lemma length_swap_cells: "length (swap_cells xs i j) = length xs"
  by (simp add: swap_cells_def)

lemma select_loop_mset:
  assumes "k \<le> length pool"
  shows "mset (fst (select_loop draw k i pool g)) = mset pool"
  using assms
proof (induction draw k i pool g rule: select_loop.induct)
  case (1 draw k i pool g)
  show ?case
  proof (cases "i < k")
    case False
    then show ?thesis
      by (simp add: select_loop.simps [of draw k i pool g])
  next
    case True
    obtain r g' where d: "draw g = (r, g')"
      by (cases "draw g")
    define j where "j = i + r mod (length pool - i)"
    have i: "i < length pool"
      using True "1.prems" by simp
    then have j: "j < length pool"
      unfolding j_def using mod_less_divisor [of "length pool - i" r] by linarith
    have step: "select_loop draw k i pool g = select_loop draw k (Suc i) (swap_cells pool i j) g'"
      using True by (simp add: select_loop.simps [of draw k i pool g] d j_def)
    have "mset (fst (select_loop draw k (Suc i) (swap_cells pool i j) g'))
        = mset (swap_cells pool i j)"
      using "1.IH" [OF True d [symmetric]] "1.prems"
      by (simp add: j_def length_swap_cells)
    then show ?thesis
      using step i j by (simp add: mset_swap_cells)
  qed
qed

text \<open>
  Claim C1: for every lower bound, upper bound and count \<open>k\<close> with \<open>k \<le> hi - lo\<close>, every
  random-number source and every state of it, the sampling operation returns (it does not
  fail and it does not loop) a collection of exactly \<open>k\<close> integers, no two of them equal,
  each at least \<open>lo\<close> and below \<open>hi\<close>; the form without a lower bound is the form with
  lower bound 0.
\<close>

theorem UniformSample_distinct_in_range:
  assumes "numSamples \<le> upperBound - lowerBound"
  shows "\<exists>samples g'.
     UniformSample_range draw lowerBound upperBound numSamples g = Inr (samples, g')
     \<and> (lowerBound = 0 \<longrightarrow> UniformSample draw numSamples upperBound g = Inr (samples, g'))
     \<and> length samples = numSamples
     \<and> distinct samples
     \<and> (\<forall>e\<in>set samples. lowerBound \<le> e \<and> e < upperBound)"
proof -
  obtain pool g' where sl: "select_loop draw numSamples 0 [lowerBound..<upperBound] g = (pool, g')"
    by (cases "select_loop draw numSamples 0 [lowerBound..<upperBound] g")
  have perm: "mset pool = mset [lowerBound..<upperBound]"
    using select_loop_mset [of numSamples "[lowerBound..<upperBound]" draw 0 g] assms
    by (simp add: sl)
  have len: "length pool = upperBound - lowerBound"
    using mset_eq_length [OF perm] by simp
  have dist: "distinct pool"
    using mset_eq_imp_distinct_iff [OF perm] by simp
  have elems: "set pool = {lowerBound..<upperBound}"
    using mset_eq_setD [OF perm] by simp
  have res: "UniformSample_range draw lowerBound upperBound numSamples g
      = Inr (take numSamples pool, g')"
    using assms by (simp add: UniformSample_range_def sl)
  have "length (take numSamples pool) = numSamples"
    using assms len by simp
  moreover have "distinct (take numSamples pool)"
    using dist by simp
  moreover have "\<forall>e\<in>set (take numSamples pool). lowerBound \<le> e \<and> e < upperBound"
    using set_take_subset [of numSamples pool] elems by auto
  ultimately show ?thesis
    using res by (auto simp: UniformSample_def)
qed


lemma UniformSample_range_example:
  "UniformSample_range example_draw 2 6 3 2 = Inr ([4, 2, 3], 7)"
  by code_simp

text \<open>
  C1 on the range from 2 to 6 with three samples, and on the range below 4 with all four,
  with the example source started at 2.
\<close>

theorem UniformSample_distinct_in_range_witness:
  "(3::nat) \<le> 6 - 2
   \<and> UniformSample_range example_draw 2 6 3 2 = Inr ([4, 2, 3], 7)
   \<and> length [4, 2, 3 :: nat] = 3
   \<and> distinct [4, 2, 3 :: nat]
   \<and> list_all (\<lambda>e. 2 \<le> e \<and> e < 6) [4, 2, 3 :: nat]
   \<and> UniformSample example_draw 4 4 2 = Inr ([2, 0, 1, 3], 6)"
proof -
  have h: "(3::nat) \<le> 6 - 2"
    by simp
  obtain samples g' where s:
    "UniformSample_range example_draw 2 6 3 2 = Inr (samples, g')"
    "length samples = 3" "distinct samples" "\<forall>e\<in>set samples. 2 \<le> e \<and> e < 6"
    using UniformSample_distinct_in_range [OF h, of example_draw 2] by blast
  have "samples = [4, 2, 3]" and "g' = 7"
    using s(1) by (simp_all add: UniformSample_range_example)
  moreover have "UniformSample example_draw 4 4 2 = Inr ([2, 0, 1, 3], 6)"
    by code_simp
  ultimately show ?thesis
    using s h by (simp add: list_all_iff)
qed

end
